theory Spec2Isabelle
  imports Main
begin

section \<open>Time values\<close>

text \<open>
  The tracker of \<^verbatim>\<open>httpstat.go\<close> stores values of Go's \<^verbatim>\<open>time.Time\<close> and
  \<^verbatim>\<open>time.Duration\<close>. A \<^verbatim>\<open>Time\<close> is modelled by its distance in nanoseconds from
  the zero instant (January 1, year 1, 00:00:00 UTC), so the zero value of the type is \<open>0\<close>
  and \<^verbatim>\<open>IsZero\<close> tests for it. A \<^verbatim>\<open>Duration\<close> is a signed 64-bit count of
  nanoseconds; \<^verbatim>\<open>Time.Sub\<close> is documented to return the largest (smallest) duration
  when the difference does not fit, which is written out below. A reading of
  \<^verbatim>\<open>time.Now()\<close> also carries a monotonic clock reading, which \<^verbatim>\<open>Sub\<close> prefers
  when both operands have one; the model takes the two clocks to agree on differences, so
  that one integer stands for a reading.
\<close>

type_synonym Time = int
type_synonym Duration = int

definition maxDuration :: Duration where
  "maxDuration = 9223372036854775807"

definition minDuration :: Duration where
  "minDuration = - 9223372036854775808"

definition IsZero :: "Time \<Rightarrow> bool" where
  "IsZero t = (t = 0)"

definition Sub :: "Time \<Rightarrow> Time \<Rightarrow> Duration" where
  "Sub t u =
     (if maxDuration < t - u then maxDuration
      else if t - u < minDuration then minDuration
      else t - u)"

section \<open>The tracker\<close>

text \<open>
  The struct \<^verbatim>\<open>Result\<close>. The fields \<^verbatim>\<open>t0\<close> to \<^verbatim>\<open>t5\<close> are never read or
  written by the package and are left out; the mutex \<^verbatim>\<open>mu\<close> carries no data and is
  treated separately in the section on locking.
\<close>

record Result =
  DNSLookup :: Duration
  TCPConnection :: Duration
  TLSHandshake :: Duration
  ServerProcessing :: Duration
  contentTransfer :: Duration
  NameLookup :: Duration
  Connect :: Duration
  Pretransfer :: Duration
  StartTransfer :: Duration
  total :: Duration
  dnsStart :: Time
  dnsDone :: Time
  tcpStart :: Time
  tcpDone :: Time
  tlsStart :: Time
  tlsDone :: Time
  serverStart :: Time
  serverDone :: Time
  transferStart :: Time
  transferDone :: Time
  isTLS :: bool
  isReused :: bool

text \<open>The value of \<^verbatim>\<open>var result Result\<close>: every field is the zero value of its type.\<close>

definition zero_Result :: Result where
  "zero_Result =
     \<lparr> DNSLookup = 0, TCPConnection = 0, TLSHandshake = 0, ServerProcessing = 0,
       contentTransfer = 0, NameLookup = 0, Connect = 0, Pretransfer = 0,
       StartTransfer = 0, total = 0,
       dnsStart = 0, dnsDone = 0, tcpStart = 0, tcpDone = 0, tlsStart = 0, tlsDone = 0,
       serverStart = 0, serverDone = 0, transferStart = 0, transferDone = 0,
       isTLS = False, isReused = False \<rparr>"

text \<open>\<^verbatim>\<open>durations\<close> builds a map literal with ten keys.\<close>

definition durations :: "Result \<Rightarrow> (string \<rightharpoonup> Duration)" where
  "durations r = map_of
     [ (''DNSLookup'', DNSLookup r),
       (''TCPConnection'', TCPConnection r),
       (''TLSHandshake'', TLSHandshake r),
       (''ServerProcessing'', ServerProcessing r),
       (''ContentTransfer'', contentTransfer r),
       (''NameLookup'', NameLookup r),
       (''Connect'', Connect r),
       (''Pretransfer'', Connect r),
       (''StartTransfer'', StartTransfer r),
       (''Total'', total r) ]"

text \<open>\<^verbatim>\<open>End\<close>: the early return leaves everything but \<^verbatim>\<open>transferDone\<close> as it was.\<close>

definition End :: "Time \<Rightarrow> Result \<Rightarrow> Result" where
  "End t r =
     (let r1 = r\<lparr>transferDone := t\<rparr> in
      if IsZero (dnsStart r1) then r1
      else
        (let r2 = r1\<lparr>contentTransfer := Sub (transferDone r1) (transferStart r1)\<rparr>
         in r2\<lparr>total := Sub (transferDone r2) (dnsStart r2)\<rparr>))"

definition ContentTransfer :: "Time \<Rightarrow> Result \<Rightarrow> Duration" where
  "ContentTransfer t r = Sub t (serverDone r)"

definition Total :: "Time \<Rightarrow> Result \<Rightarrow> Duration" where
  "Total t r = Sub t (dnsStart r)"

subsection \<open>The hooks installed by \<^verbatim>\<open>withClientTrace\<close>\<close>

text \<open>
  Each hook reads the clock once with \<^verbatim>\<open>time.Now()\<close>; the reading is the first
  argument of the model. The statements are kept in the order of the source.
\<close>

definition DNSStart :: "Time \<Rightarrow> Result \<Rightarrow> Result" where
  "DNSStart now r = r\<lparr>dnsStart := now\<rparr>"

definition DNSDone :: "Time \<Rightarrow> Result \<Rightarrow> Result" where
  "DNSDone now r =
     (let r1 = r\<lparr>dnsDone := now\<rparr>;
          r2 = r1\<lparr>DNSLookup := Sub (dnsDone r1) (dnsStart r1)\<rparr>
      in r2\<lparr>NameLookup := Sub (dnsDone r2) (dnsStart r2)\<rparr>)"

definition ConnectStart :: "Time \<Rightarrow> Result \<Rightarrow> Result" where
  "ConnectStart now r =
     (let r1 = r\<lparr>tcpStart := now\<rparr> in
      if IsZero (dnsStart r1)
      then (let r2 = r1\<lparr>dnsStart := tcpStart r1\<rparr> in r2\<lparr>dnsDone := tcpStart r2\<rparr>)
      else r1)"

definition ConnectDone :: "Time \<Rightarrow> Result \<Rightarrow> Result" where
  "ConnectDone now r =
     (let r1 = r\<lparr>tcpDone := now\<rparr>;
          r2 = r1\<lparr>TCPConnection := Sub (tcpDone r1) (tcpStart r1)\<rparr>
      in r2\<lparr>Connect := Sub (tcpDone r2) (dnsStart r2)\<rparr>)"

definition TLSHandshakeStart :: "Time \<Rightarrow> Result \<Rightarrow> Result" where
  "TLSHandshakeStart now r = (let r1 = r\<lparr>isTLS := True\<rparr> in r1\<lparr>tlsStart := now\<rparr>)"

definition TLSHandshakeDone :: "Time \<Rightarrow> Result \<Rightarrow> Result" where
  "TLSHandshakeDone now r =
     (let r1 = r\<lparr>tlsDone := now\<rparr>;
          r2 = r1\<lparr>TLSHandshake := Sub (tlsDone r1) (tlsStart r1)\<rparr>
      in r2\<lparr>Pretransfer := Sub (tlsDone r2) (dnsStart r2)\<rparr>)"

text \<open>\<^verbatim>\<open>GotConn\<close> reads no clock; its argument is the field \<^verbatim>\<open>Reused\<close> of the info.\<close>

definition GotConn :: "bool \<Rightarrow> Result \<Rightarrow> Result" where
  "GotConn reused r = (if reused then r\<lparr>isReused := True\<rparr> else r)"

definition WroteRequest :: "Time \<Rightarrow> Result \<Rightarrow> Result" where
  "WroteRequest clock r =
     (let r1 = r\<lparr>serverStart := clock\<rparr>;
          r2 = (if IsZero (dnsStart r1) \<and> IsZero (tcpStart r1)
                then (let now = serverStart r1
                      in r1\<lparr>dnsStart := now, dnsDone := now, tcpStart := now, tcpDone := now\<rparr>)
                else r1);
          r3 = (if isReused r2
                then (let now = serverStart r2
                      in r2\<lparr>dnsStart := now, dnsDone := now, tcpStart := now, tcpDone := now,
                            tlsStart := now, tlsDone := now\<rparr>)
                else r2)
      in if isTLS r3 then r3
         else (let r4 = r3\<lparr>TLSHandshake := Sub (tcpDone r3) (tcpDone r3)\<rparr>
               in r4\<lparr>Pretransfer := Connect r4\<rparr>))"

definition GotFirstResponseByte :: "Time \<Rightarrow> Result \<Rightarrow> Result" where
  "GotFirstResponseByte now r =
     (let r1 = r\<lparr>serverDone := now\<rparr>;
          r2 = r1\<lparr>ServerProcessing := Sub (serverDone r1) (serverStart r1)\<rparr>;
          r3 = r2\<lparr>StartTransfer := Sub (serverDone r2) (dnsStart r2)\<rparr>
      in r3\<lparr>transferStart := serverDone r3\<rparr>)"

subsection \<open>Sequences of calls\<close>

text \<open>
  What reaches one tracker during an exchange is a sequence of hook invocations, each with
  the clock reading it takes, and calls of \<^verbatim>\<open>End\<close> with the caller's time.
\<close>

datatype event =
    is_DNSStart: E_DNSStart Time
  | is_DNSDone: E_DNSDone Time
  | is_ConnectStart: E_ConnectStart Time
  | is_ConnectDone: E_ConnectDone Time
  | is_TLSHandshakeStart: E_TLSHandshakeStart Time
  | is_TLSHandshakeDone: E_TLSHandshakeDone Time
  | is_GotConn: E_GotConn bool
  | is_WroteRequest: E_WroteRequest Time
  | is_GotFirstResponseByte: E_GotFirstResponseByte Time
  | is_End: E_End Time

fun fire :: "event \<Rightarrow> Result \<Rightarrow> Result" where
  "fire (E_DNSStart t) r = DNSStart t r"
| "fire (E_DNSDone t) r = DNSDone t r"
| "fire (E_ConnectStart t) r = ConnectStart t r"
| "fire (E_ConnectDone t) r = ConnectDone t r"
| "fire (E_TLSHandshakeStart t) r = TLSHandshakeStart t r"
| "fire (E_TLSHandshakeDone t) r = TLSHandshakeDone t r"
| "fire (E_GotConn b) r = GotConn b r"
| "fire (E_WroteRequest t) r = WroteRequest t r"
| "fire (E_GotFirstResponseByte t) r = GotFirstResponseByte t r"
| "fire (E_End t) r = End t r"

fun run :: "event list \<Rightarrow> Result \<Rightarrow> Result" where
  "run [] r = r"
| "run (e # es) r = run es (fire e r)"

text \<open>The clock reading an event carries, and the readings of a sequence in order.\<close>

fun stamp :: "event \<Rightarrow> Time option" where
  "stamp (E_DNSStart t) = Some t"
| "stamp (E_DNSDone t) = Some t"
| "stamp (E_ConnectStart t) = Some t"
| "stamp (E_ConnectDone t) = Some t"
| "stamp (E_TLSHandshakeStart t) = Some t"
| "stamp (E_TLSHandshakeDone t) = Some t"
| "stamp (E_GotConn b) = None"
| "stamp (E_WroteRequest t) = Some t"
| "stamp (E_GotFirstResponseByte t) = Some t"
| "stamp (E_End t) = Some t"

fun stamps :: "event list \<Rightarrow> Time list" where
  "stamps [] = []"
| "stamps (e # es) = (case stamp e of None \<Rightarrow> stamps es | Some t \<Rightarrow> t # stamps es)"

text \<open>
  A monotone clock: the readings never decrease along the sequence, and none of them is the
  zero instant (\<^verbatim>\<open>time.Now()\<close> lies after year 1).
\<close>

definition monotone_clock :: "event list \<Rightarrow> bool" where
  "monotone_clock es = (sorted (stamps es) \<and> list_all (\<lambda>t. 0 < t) (stamps es))"

text \<open>
  The order in which one connection setup delivers the events: name lookup, connect, TLS
  handshake, connection obtained, request written, first response byte, and the caller's
  \<^verbatim>\<open>End\<close> last. A sequence in lifecycle order holds each event at most once.
\<close>

fun rank :: "event \<Rightarrow> nat" where
  "rank (E_DNSStart t) = 0"
| "rank (E_DNSDone t) = 1"
| "rank (E_ConnectStart t) = 2"
| "rank (E_ConnectDone t) = 3"
| "rank (E_TLSHandshakeStart t) = 4"
| "rank (E_TLSHandshakeDone t) = 5"
| "rank (E_GotConn b) = 6"
| "rank (E_WroteRequest t) = 7"
| "rank (E_GotFirstResponseByte t) = 8"
| "rank (E_End t) = 9"

definition lifecycle_order :: "event list \<Rightarrow> bool" where
  "lifecycle_order es = sorted_wrt (<) (map rank es)"

text \<open>
  A sequence is paired when no phase is reported done that was not reported started: a done
  event comes with its start event, the first response byte with the written request, and
  \<^verbatim>\<open>End\<close> with the first response byte.
\<close>

definition paired :: "event list \<Rightarrow> bool" where
  "paired es =
     ((list_ex is_DNSDone es \<longrightarrow> list_ex is_DNSStart es) \<and>
      (list_ex is_ConnectDone es \<longrightarrow> list_ex is_ConnectStart es) \<and>
      (list_ex is_TLSHandshakeDone es \<longrightarrow> list_ex is_TLSHandshakeStart es) \<and>
      (list_ex is_GotFirstResponseByte es \<longrightarrow> list_ex is_WroteRequest es) \<and>
      (list_ex is_End es \<longrightarrow> list_ex is_GotFirstResponseByte es))"


text \<open>The ten timestamps and the ten durations of a tracker, for statements about all of them.\<close>

definition timestamps :: "Result \<Rightarrow> Time list" where
  "timestamps r =
     [dnsStart r, dnsDone r, tcpStart r, tcpDone r, tlsStart r, tlsDone r,
      serverStart r, serverDone r, transferStart r, transferDone r]"



subsection \<open>Example exchanges\<close>

text \<open>
  A clock reading of 31 October 2026, 00:00:00 UTC, in nanoseconds from the zero instant.
  The examples take their readings from there on, one nanosecond apart.
\<close>

definition clock0 :: Time where
  "clock0 = 63929001600000000000"

text \<open>A fresh TLS connection on which every hook fires.\<close>

definition fresh_tls_exchange :: "event list" where
  "fresh_tls_exchange =
     [E_DNSStart (clock0 + 1), E_DNSDone (clock0 + 2), E_ConnectStart (clock0 + 3),
      E_ConnectDone (clock0 + 4), E_TLSHandshakeStart (clock0 + 5),
      E_TLSHandshakeDone (clock0 + 6), E_GotConn False, E_WroteRequest (clock0 + 7),
      E_GotFirstResponseByte (clock0 + 8), E_End (clock0 + 9)]"

text \<open>
  A transport whose dialer takes no context (the one of \<^verbatim>\<open>TestHTTPStat_beforeGO17\<close>):
  the name lookup and connect hooks never fire, the TLS hooks do.
\<close>

definition legacy_dial_exchange :: "event list" where
  "legacy_dial_exchange =
     [E_TLSHandshakeStart (clock0 + 1), E_TLSHandshakeDone (clock0 + 2), E_GotConn False,
      E_WroteRequest (clock0 + 3), E_GotFirstResponseByte (clock0 + 4), E_End (clock0 + 5)]"

text \<open>The same fresh TLS connection observed when the handshake has just finished.\<close>

definition tls_handshake_finished :: "event list" where
  "tls_handshake_finished =
     [E_DNSStart (clock0 + 1), E_DNSDone (clock0 + 2), E_ConnectStart (clock0 + 3),
      E_ConnectDone (clock0 + 4), E_TLSHandshakeStart (clock0 + 5),
      E_TLSHandshakeDone (clock0 + 6)]"





section \<open>Locking\<close>

text \<open>
  The hooks share one \<^verbatim>\<open>sync.Mutex\<close>, created by \<^verbatim>\<open>withClientTrace\<close>. To speak
  about which assignments run under it, every function is also read as the sequence of
  lock operations and field assignments it executes in a given state, in program order; a
  deferred \<^verbatim>\<open>Unlock\<close> runs when the function returns.
\<close>

datatype field =
    F_DNSLookup | F_TCPConnection | F_TLSHandshake | F_ServerProcessing | F_contentTransfer
  | F_NameLookup | F_Connect | F_Pretransfer | F_StartTransfer | F_total
  | F_dnsStart | F_dnsDone | F_tcpStart | F_tcpDone | F_tlsStart | F_tlsDone
  | F_serverStart | F_serverDone | F_transferStart | F_transferDone
  | F_isTLS | F_isReused

datatype fval = Num int | Flag bool

fun field_value :: "field \<Rightarrow> Result \<Rightarrow> fval" where
  "field_value F_DNSLookup r = Num (DNSLookup r)"
| "field_value F_TCPConnection r = Num (TCPConnection r)"
| "field_value F_TLSHandshake r = Num (TLSHandshake r)"
| "field_value F_ServerProcessing r = Num (ServerProcessing r)"
| "field_value F_contentTransfer r = Num (contentTransfer r)"
| "field_value F_NameLookup r = Num (NameLookup r)"
| "field_value F_Connect r = Num (Connect r)"
| "field_value F_Pretransfer r = Num (Pretransfer r)"
| "field_value F_StartTransfer r = Num (StartTransfer r)"
| "field_value F_total r = Num (total r)"
| "field_value F_dnsStart r = Num (dnsStart r)"
| "field_value F_dnsDone r = Num (dnsDone r)"
| "field_value F_tcpStart r = Num (tcpStart r)"
| "field_value F_tcpDone r = Num (tcpDone r)"
| "field_value F_tlsStart r = Num (tlsStart r)"
| "field_value F_tlsDone r = Num (tlsDone r)"
| "field_value F_serverStart r = Num (serverStart r)"
| "field_value F_serverDone r = Num (serverDone r)"
| "field_value F_transferStart r = Num (transferStart r)"
| "field_value F_transferDone r = Num (transferDone r)"
| "field_value F_isTLS r = Flag (isTLS r)"
| "field_value F_isReused r = Flag (isReused r)"

datatype op = Lock | Unlock | Write field

fun ops :: "event \<Rightarrow> Result \<Rightarrow> op list" where
  "ops (E_DNSStart t) r = [Lock, Write F_dnsStart, Unlock]"
| "ops (E_DNSDone t) r = [Lock, Write F_dnsDone, Write F_DNSLookup, Write F_NameLookup, Unlock]"
| "ops (E_ConnectStart t) r =
     [Lock, Write F_tcpStart]
     @ (if IsZero (dnsStart r) then [Write F_dnsStart, Write F_dnsDone] else [])
     @ [Unlock]"
| "ops (E_ConnectDone t) r =
     [Lock, Write F_tcpDone, Write F_TCPConnection, Write F_Connect, Unlock]"
| "ops (E_TLSHandshakeStart t) r = [Lock, Write F_isTLS, Write F_tlsStart, Unlock]"
| "ops (E_TLSHandshakeDone t) r =
     [Lock, Write F_tlsDone, Write F_TLSHandshake, Write F_Pretransfer, Unlock]"
| "ops (E_GotConn reused) r = [Lock] @ (if reused then [Write F_isReused] else []) @ [Unlock]"
| "ops (E_WroteRequest t) r =
     [Lock, Write F_serverStart]
     @ (if IsZero (dnsStart r) \<and> IsZero (tcpStart r)
        then [Write F_dnsStart, Write F_dnsDone, Write F_tcpStart, Write F_tcpDone] else [])
     @ (if isReused r
        then [Write F_dnsStart, Write F_dnsDone, Write F_tcpStart, Write F_tcpDone,
              Write F_tlsStart, Write F_tlsDone] else [])
     @ (if isTLS r then [] else [Write F_TLSHandshake, Write F_Pretransfer])
     @ [Unlock]"
| "ops (E_GotFirstResponseByte t) r =
     [Lock, Write F_serverDone, Write F_ServerProcessing, Write F_StartTransfer,
      Write F_transferStart, Unlock]"
| "ops (E_End t) r =
     [Write F_transferDone]
     @ (if IsZero (dnsStart r) then [] else [Write F_contentTransfer, Write F_total])"

text \<open>
  The discipline: a sequence starts with the lock free, takes it only when it is free,
  assigns and releases only while holding it, and ends with the lock free again.
\<close>

fun guarded :: "bool \<Rightarrow> op list \<Rightarrow> bool" where
  "guarded held [] = (\<not> held)"
| "guarded held (Lock # xs) = (\<not> held \<and> guarded True xs)"
| "guarded held (Unlock # xs) = (held \<and> guarded False xs)"
| "guarded held (Write f # xs) = (held \<and> guarded held xs)"

section \<open>Basic facts\<close>

lemmas hook_defs = DNSStart_def DNSDone_def ConnectStart_def ConnectDone_def
  TLSHandshakeStart_def TLSHandshakeDone_def GotConn_def WroteRequest_def
  GotFirstResponseByte_def End_def

lemmas time_defs = Sub_def IsZero_def maxDuration_def minDuration_def clock0_def

lemma Sub_self: "Sub t t = 0"
  by (simp add: Sub_def maxDuration_def minDuration_def)

lemma Sub_nonneg: "u \<le> t \<Longrightarrow> 0 \<le> Sub t u"
  by (simp add: Sub_def maxDuration_def minDuration_def)

lemma Sub_pos: "u < t \<Longrightarrow> 0 < Sub t u"
  by (simp add: Sub_def maxDuration_def minDuration_def)

lemma Sub_exact: "u \<le> t \<Longrightarrow> t - u \<le> maxDuration \<Longrightarrow> Sub t u = t - u"
  by (simp add: Sub_def maxDuration_def minDuration_def)

lemma Sub_zero_time: "Sub t 0 = (if maxDuration < t then maxDuration
  else if t < minDuration then minDuration else t)"
  by (simp add: Sub_def)

section \<open>Sequences of events\<close>

lemma run_append: "run (xs @ ys) r = run ys (run xs r)"
  by (induction xs arbitrary: r) simp_all

lemma stamps_append: "stamps (xs @ ys) = stamps xs @ stamps ys"
  by (induction xs) (simp_all split: option.splits)

text \<open>
  Three schemes for facts about \<open>run\<close>: a property that every hook keeps holds after
  the whole sequence; a property that some event establishes and every hook keeps holds
  once such an event has fired; a number that only some events assign a non-zero value
  stays as it was, or zero, while none of them fires. The clock readings are assumed
  positive throughout.
\<close>

lemma run_keeps:
  assumes step: "\<And>e r. (\<And>t. stamp e = Some t \<Longrightarrow> 0 < t) \<Longrightarrow> P r \<Longrightarrow> P (fire e r)"
  shows "\<forall>t\<in>set (stamps es). 0 < t \<Longrightarrow> P r \<Longrightarrow> P (run es r)"
proof (induction es arbitrary: r)
  case Nil
  then show ?case by simp
next
  case (Cons e es)
  have "P (fire e r)"
  proof (rule step)
    fix t assume "stamp e = Some t"
    with Cons.prems(1) show "0 < t" by simp
  qed (rule Cons.prems(2))
  moreover from Cons.prems(1) have "\<forall>t\<in>set (stamps es). 0 < t"
    by (simp split: option.splits)
  ultimately show ?case using Cons.IH by simp
qed



section \<open>The entry reported as Pretransfer\<close>

text \<open>
  Claim C1. The claim reads: once the TLS-handshake-done hook has fired, the entry of
  \<open>durations\<close> under the key Pretransfer is \<open>tlsDone - dnsStart\<close>, the value that hook
  assigns to the field \<open>Pretransfer\<close>, and not the connect value \<open>tcpDone - dnsStart\<close>.
  The map literal fills the key from the field \<open>Connect\<close>. On a fresh TLS connection whose
  hooks fire one after the other, a nanosecond apart, the entry is 3, the connect value,
  while the field \<open>Pretransfer\<close> holds \<open>tlsDone - dnsStart = 5\<close>.
\<close>

theorem pretransfer_entry_reports_connect:
  "durations (run tls_handshake_finished zero_Result) ''Pretransfer'' = Some 3 \<and>
   Connect (run tls_handshake_finished zero_Result) = 3 \<and>
   Pretransfer (run tls_handshake_finished zero_Result) = 5 \<and>
   Sub (tlsDone (run tls_handshake_finished zero_Result))
       (dnsStart (run tls_handshake_finished zero_Result)) = 5"
  by (simp add: tls_handshake_finished_def zero_Result_def hook_defs durations_def time_defs)

section \<open>End\<close>

text \<open>
  Claim C4. \<open>End t\<close> always stores \<open>t\<close> in \<open>transferDone\<close>. When \<open>dnsStart\<close> is unset it
  does nothing else, so the content-transfer and total durations keep their values, which
  are zero on a tracker that never received an event. Otherwise it sets the content-transfer
  duration to \<open>transferDone - transferStart\<close> and the total to \<open>transferDone - dnsStart\<close>,
  and changes nothing else.
\<close>

theorem End_records_transferDone:
  "transferDone (End t r) = t \<and>
   (IsZero (dnsStart r) \<longrightarrow> End t r = r\<lparr>transferDone := t\<rparr>) \<and>
   (\<not> IsZero (dnsStart r) \<longrightarrow>
      End t r = r\<lparr>transferDone := t, contentTransfer := Sub t (transferStart r),
                   total := Sub t (dnsStart r)\<rparr>) \<and>
   contentTransfer (End t zero_Result) = 0 \<and> total (End t zero_Result) = 0"
  by (simp add: End_def Let_def zero_Result_def IsZero_def)

theorem End_records_transferDone_witness:
  "IsZero (dnsStart zero_Result) \<and>
   End 9 zero_Result = zero_Result\<lparr>transferDone := 9\<rparr> \<and>
   \<not> IsZero (dnsStart (GotFirstResponseByte 8 (WroteRequest 7 zero_Result))) \<and>
   contentTransfer (End 9 (GotFirstResponseByte 8 (WroteRequest 7 zero_Result))) = 1 \<and>
   total (End 9 (GotFirstResponseByte 8 (WroteRequest 7 zero_Result))) = 2"
proof -
  have unset: "IsZero (dnsStart zero_Result)"
    by (simp add: zero_Result_def IsZero_def)
  have anchored: "\<not> IsZero (dnsStart (GotFirstResponseByte 8 (WroteRequest 7 zero_Result)))"
    by (simp add: zero_Result_def IsZero_def WroteRequest_def GotFirstResponseByte_def)
  have stamps: "transferStart (GotFirstResponseByte 8 (WroteRequest 7 zero_Result)) = 8"
    "dnsStart (GotFirstResponseByte 8 (WroteRequest 7 zero_Result)) = 7"
    by (simp_all add: zero_Result_def IsZero_def WroteRequest_def GotFirstResponseByte_def)
  show ?thesis
    using unset anchored stamps
      End_records_transferDone [of 9 zero_Result]
      End_records_transferDone [of 9 "GotFirstResponseByte 8 (WroteRequest 7 zero_Result)"]
    by (simp add: time_defs)
qed

section \<open>The accessors ContentTransfer and Total\<close>

text \<open>
  Claim C9. Unlike \<open>End\<close>, the accessors have no guard for an unset timestamp. When
  \<open>serverDone\<close> was never set, \<open>ContentTransfer t\<close> is \<open>t\<close> minus the zero time, and when
  \<open>dnsStart\<close> was never set, so is \<open>Total t\<close>, where \<open>End t\<close> leaves the total as it was.
  That difference is positive for every \<open>t\<close> after the zero instant, and it is the largest
  duration (about 292 years) for every \<open>t\<close> that far from the zero instant, as every
  present-day reading is.
\<close>

theorem accessors_have_no_guard:
  "(IsZero (serverDone r) \<longrightarrow> ContentTransfer t r = Sub t 0) \<and>
   (IsZero (dnsStart r) \<longrightarrow> Total t r = Sub t 0 \<and> total (End t r) = total r) \<and>
   (0 < t \<longrightarrow> 0 < Sub t 0) \<and>
   (maxDuration \<le> t \<longrightarrow> Sub t 0 = maxDuration)"
  by (simp add: ContentTransfer_def Total_def End_def Let_def time_defs)

theorem accessors_have_no_guard_witness:
  "IsZero (serverDone zero_Result) \<and> IsZero (dnsStart zero_Result) \<and>
   ContentTransfer 63900000000000000000 zero_Result = 9223372036854775807 \<and>
   Total 63900000000000000000 zero_Result = 9223372036854775807 \<and>
   total (End 63900000000000000000 zero_Result) = 0"
proof -
  have unset: "IsZero (serverDone zero_Result)" "IsZero (dnsStart zero_Result)"
    by (simp_all add: zero_Result_def IsZero_def)
  have late: "maxDuration \<le> 63900000000000000000" "(0::int) < 63900000000000000000"
    by (simp_all add: maxDuration_def)
  have fresh: "total zero_Result = 0"
    by (simp add: zero_Result_def)
  show ?thesis
    using unset late fresh accessors_have_no_guard [of zero_Result 63900000000000000000]
    by (simp add: maxDuration_def)
qed

section \<open>The connect-start hook\<close>

text \<open>
  Claim C6. The connect-start hook stores the clock reading in \<open>tcpStart\<close>. When
  \<open>dnsStart\<close> is still unset it also sets \<open>dnsStart\<close> and \<open>dnsDone\<close> to that reading; when
  \<open>dnsStart\<close> is set it changes no field but \<open>tcpStart\<close>.
\<close>

theorem ConnectStart_sets_anchor_iff_unset:
  "tcpStart (ConnectStart now r) = now \<and>
   (IsZero (dnsStart r) \<longrightarrow>
      ConnectStart now r = r\<lparr>tcpStart := now, dnsStart := now, dnsDone := now\<rparr>) \<and>
   (\<not> IsZero (dnsStart r) \<longrightarrow> ConnectStart now r = r\<lparr>tcpStart := now\<rparr>)"
  by (simp add: ConnectStart_def Let_def)

theorem ConnectStart_sets_anchor_iff_unset_witness:
  "IsZero (dnsStart zero_Result) \<and>
   ConnectStart 3 zero_Result = zero_Result\<lparr>tcpStart := 3, dnsStart := 3, dnsDone := 3\<rparr> \<and>
   \<not> IsZero (dnsStart (DNSStart 1 zero_Result)) \<and>
   ConnectStart 3 (DNSStart 1 zero_Result) = (DNSStart 1 zero_Result)\<lparr>tcpStart := 3\<rparr> \<and>
   dnsStart (ConnectStart 3 (DNSStart 1 zero_Result)) = 1"
proof -
  have unset: "IsZero (dnsStart zero_Result)"
    by (simp add: zero_Result_def IsZero_def)
  have anchored: "\<not> IsZero (dnsStart (DNSStart 1 zero_Result))"
    by (simp add: zero_Result_def IsZero_def DNSStart_def)
  have "dnsStart ((DNSStart 1 zero_Result)\<lparr>tcpStart := 3\<rparr>) = 1"
    by (simp add: DNSStart_def)
  then show ?thesis
    using unset anchored
      ConnectStart_sets_anchor_iff_unset [of 3 zero_Result]
      ConnectStart_sets_anchor_iff_unset [of 3 "DNSStart 1 zero_Result"]
    by simp
qed

section \<open>A reused connection\<close>

text \<open>
  Claim C5. On a reused connection the tracker receives connection-obtained with
  \<open>reused = True\<close>, request-written, first-response-byte and then \<open>End\<close>, at strictly
  increasing clock readings after the zero instant. \<open>durations\<close> then reports zero for
  DNSLookup, TCPConnection and TLSHandshake, and strictly positive values for
  ServerProcessing and ContentTransfer.
\<close>

theorem reused_connection_durations:
  assumes "0 < t1" and "t1 < t2" and "t2 < t3"
  shows
    "durations (run [E_GotConn True, E_WroteRequest t1, E_GotFirstResponseByte t2, E_End t3]
        zero_Result) ''DNSLookup'' = Some 0 \<and>
     durations (run [E_GotConn True, E_WroteRequest t1, E_GotFirstResponseByte t2, E_End t3]
        zero_Result) ''TCPConnection'' = Some 0 \<and>
     durations (run [E_GotConn True, E_WroteRequest t1, E_GotFirstResponseByte t2, E_End t3]
        zero_Result) ''TLSHandshake'' = Some 0 \<and>
     durations (run [E_GotConn True, E_WroteRequest t1, E_GotFirstResponseByte t2, E_End t3]
        zero_Result) ''ServerProcessing'' = Some (Sub t2 t1) \<and>
     durations (run [E_GotConn True, E_WroteRequest t1, E_GotFirstResponseByte t2, E_End t3]
        zero_Result) ''ContentTransfer'' = Some (Sub t3 t2) \<and>
     0 < Sub t2 t1 \<and> 0 < Sub t3 t2"
  using assms
  by (simp add: zero_Result_def hook_defs durations_def IsZero_def Sub_self Sub_pos Let_def)

theorem reused_connection_durations_witness:
  "(0::int) < 7 \<and> (7::int) < 8 \<and> (8::int) < 10 \<and>
   durations (run [E_GotConn True, E_WroteRequest 7, E_GotFirstResponseByte 8, E_End 10]
      zero_Result) ''TLSHandshake'' = Some 0 \<and>
   durations (run [E_GotConn True, E_WroteRequest 7, E_GotFirstResponseByte 8, E_End 10]
      zero_Result) ''ServerProcessing'' = Some 1 \<and>
   durations (run [E_GotConn True, E_WroteRequest 7, E_GotFirstResponseByte 8, E_End 10]
      zero_Result) ''ContentTransfer'' = Some 2"
proof -
  have order: "(0::int) < 7" "(7::int) < 8" "(8::int) < 10"
    by simp_all
  have "Sub 8 7 = 1" "Sub 10 8 = 2"
    by (simp_all add: time_defs)
  then show ?thesis
    using reused_connection_durations [OF order] by simp
qed

section \<open>Which assignments run under the lock\<close>

text \<open>
  The operation sequences cover the functions: a field that \<open>ops\<close> does not list as
  written keeps its value.
\<close>

lemma fire_frame: "Write f \<notin> set (ops e r) \<Longrightarrow> field_value f (fire e r) = field_value f r"
  by (cases e; cases f) (auto simp: hook_defs Let_def split: if_splits)

text \<open>
  Each of the nine hooks keeps the discipline, in every state: it takes the lock before its
  first assignment and releases it when it returns.
\<close>

theorem hooks_assign_under_lock: "\<not> is_End e \<Longrightarrow> guarded False (ops e r)"
  by (cases e) simp_all

theorem hooks_assign_under_lock_witness:
  "\<not> is_End (E_WroteRequest 7) \<and>
   guarded False (ops (E_WroteRequest 7) (run [E_GotConn True] zero_Result)) \<and>
   Write F_tlsDone \<in> set (ops (E_WroteRequest 7) (run [E_GotConn True] zero_Result))"
proof -
  have hook: "\<not> is_End (E_WroteRequest 7)"
    by simp
  have "Write F_tlsDone \<in> set (ops (E_WroteRequest 7) (run [E_GotConn True] zero_Result))"
    by (simp add: GotConn_def zero_Result_def IsZero_def)
  with hook hooks_assign_under_lock [OF hook, of "run [E_GotConn True] zero_Result"]
  show ?thesis by simp
qed

text \<open>
  Claim C8. The claim reads: every field assignment, by any hook and by \<open>End\<close>, runs while
  the tracker's lock is held. \<open>End\<close> takes no lock: in every state and for every argument
  its first assignment (to \<open>transferDone\<close>) runs with the lock free.
\<close>

theorem End_assigns_without_lock:
  "\<not> guarded False (ops (E_End t) r) \<and> hd (ops (E_End t) r) = Write F_transferDone"
  by simp

section \<open>The anchor\<close>

lemma fire_anchored:
  "(\<And>t. stamp e = Some t \<Longrightarrow> 0 < t) \<Longrightarrow> (tcpStart r \<noteq> 0 \<longrightarrow> dnsStart r \<noteq> 0) \<Longrightarrow>
   tcpStart (fire e r) \<noteq> 0 \<longrightarrow> dnsStart (fire e r) \<noteq> 0"
  by (cases e) (auto simp: hook_defs Let_def IsZero_def)









section \<open>The flag isTLS\<close>

lemma fire_isTLS: "isTLS (fire e r) = (isTLS r \<or> is_TLSHandshakeStart e)"
  by (cases e) (simp_all add: hook_defs Let_def)

lemma run_isTLS: "isTLS (run es r) = (isTLS r \<or> list_ex is_TLSHandshakeStart es)"
  by (induction es arbitrary: r) (auto simp: fire_isTLS)

lemma WroteRequest_plaintext:
  "\<not> isTLS r \<Longrightarrow>
   TLSHandshake (WroteRequest t r) = 0 \<and>
   Pretransfer (WroteRequest t r) = Connect (WroteRequest t r) \<and>
   Connect (WroteRequest t r) = Connect r"
  by (simp add: WroteRequest_def Let_def Sub_self)

text \<open>
  Claim C10. Every call leaves \<open>isTLS\<close> true when it was true, and only the
  TLS-handshake-start hook makes it true. So after any sequence of events without that
  event, a reused connection among them, \<open>isTLS\<close> is false, and the request-written hook
  takes its plaintext branch: it sets the TLS handshake duration to zero and
  \<open>Pretransfer\<close> to \<open>Connect\<close>.
\<close>

theorem isTLS_only_from_handshake_start:
  "isTLS (fire e r) = (isTLS r \<or> is_TLSHandshakeStart e) \<and>
   (\<not> list_ex is_TLSHandshakeStart es \<longrightarrow>
      \<not> isTLS (run es zero_Result) \<and>
      TLSHandshake (WroteRequest t (run es zero_Result)) = 0 \<and>
      Pretransfer (WroteRequest t (run es zero_Result)) =
        Connect (WroteRequest t (run es zero_Result)))"
  using run_isTLS [of es zero_Result] WroteRequest_plaintext [of "run es zero_Result" t]
  by (simp add: fire_isTLS zero_Result_def)

theorem isTLS_only_from_handshake_start_witness:
  "\<not> list_ex is_TLSHandshakeStart [E_GotConn True] \<and>
   \<not> isTLS (run [E_GotConn True] zero_Result) \<and>
   isReused (run [E_GotConn True] zero_Result) \<and>
   TLSHandshake (WroteRequest 7 (run [E_GotConn True] zero_Result)) = 0 \<and>
   Pretransfer (WroteRequest 7 (run [E_GotConn True] zero_Result)) =
     Connect (WroteRequest 7 (run [E_GotConn True] zero_Result))"
proof -
  have none: "\<not> list_ex is_TLSHandshakeStart [E_GotConn True]"
    by simp
  have reused: "isReused (run [E_GotConn True] zero_Result)"
    by (simp add: GotConn_def)
  show ?thesis
    using none reused
      isTLS_only_from_handshake_start [of "E_GotConn True" zero_Result "[E_GotConn True]" 7]
    by auto
qed

section \<open>Durations and timestamps along a sequence\<close>

lemma fire_timestamps:
  assumes "set (timestamps r) \<subseteq> insert 0 S" and "\<And>t. stamp e = Some t \<Longrightarrow> t \<in> S"
  shows "set (timestamps (fire e r)) \<subseteq> insert 0 S"
  using assms by (cases e) (auto simp: timestamps_def hook_defs Let_def IsZero_def)

lemma run_timestamps:
  "set (timestamps r) \<subseteq> insert 0 S \<Longrightarrow> set (stamps es) \<subseteq> S \<Longrightarrow>
   set (timestamps (run es r)) \<subseteq> insert 0 S"
proof (induction es arbitrary: r)
  case Nil
  then show ?case by simp
next
  case (Cons e es)
  have "set (timestamps (fire e r)) \<subseteq> insert 0 S"
    using Cons.prems by (intro fire_timestamps) auto
  moreover have "set (stamps es) \<subseteq> S"
    using Cons.prems(2) by (auto split: option.splits)
  ultimately show ?case using Cons.IH by simp
qed

lemma timestamps_zero_Result: "set (timestamps zero_Result) \<subseteq> insert 0 S"
  by (simp add: timestamps_def zero_Result_def)













subsection \<open>Prefixes\<close>


lemma lifecycle_order_take: "lifecycle_order es \<Longrightarrow> lifecycle_order (take n es)"
  by (simp add: lifecycle_order_def sorted_wrt_take flip: take_map)







section \<open>Complete exchanges\<close>

lemma rank_le_9: "rank e \<le> 9"
  by (cases e) simp_all

lemma last_of_order:
  assumes ord: "lifecycle_order es" and mem: "x \<in> set es"
    and top: "\<forall>y\<in>set es. rank y \<le> rank x"
  shows "\<exists>pre. es = pre @ [x]"
proof -
  from mem obtain ys zs where es: "es = ys @ x # zs"
    by (auto dest: split_list)
  have "zs = []"
  proof (cases zs)
    case (Cons z zs')
    with ord es have "rank x < rank z"
      by (simp add: lifecycle_order_def sorted_wrt_append)
    moreover from top es Cons have "rank z \<le> rank x" by simp
    ultimately show ?thesis by simp
  qed simp
  with es show ?thesis by simp
qed

lemma lifecycle_order_snoc:
  "lifecycle_order (xs @ [x]) \<Longrightarrow> lifecycle_order xs \<and> (\<forall>y\<in>set xs. rank y < rank x)"
  by (simp add: lifecycle_order_def sorted_wrt_append)

lemma complete_shape:
  assumes ord: "lifecycle_order es"
    and w: "E_WroteRequest tw \<in> set es"
    and f: "E_GotFirstResponseByte tf \<in> set es"
    and e: "E_End te \<in> set es"
  shows "\<exists>pre. es = pre @ [E_WroteRequest tw, E_GotFirstResponseByte tf, E_End te]"
proof -
  have "\<forall>y\<in>set es. rank y \<le> rank (E_End te)"
    by (simp add: rank_le_9)
  with ord e obtain p1 where p1: "es = p1 @ [E_End te]"
    using last_of_order by blast
  from ord p1 have ord1: "lifecycle_order p1" and top1: "\<forall>y\<in>set p1. rank y < 9"
    using lifecycle_order_snoc [of p1 "E_End te"] by simp_all
  from f p1 have f1: "E_GotFirstResponseByte tf \<in> set p1" by simp
  from top1 have "\<forall>y\<in>set p1. rank y \<le> rank (E_GotFirstResponseByte tf)" by auto
  with ord1 f1 obtain p2 where p2: "p1 = p2 @ [E_GotFirstResponseByte tf]"
    using last_of_order by blast
  from ord1 p2 have ord2: "lifecycle_order p2" and top2: "\<forall>y\<in>set p2. rank y < 8"
    using lifecycle_order_snoc [of p2 "E_GotFirstResponseByte tf"] by simp_all
  from w p1 p2 have w2: "E_WroteRequest tw \<in> set p2" by simp
  from top2 have "\<forall>y\<in>set p2. rank y \<le> rank (E_WroteRequest tw)" by auto
  with ord2 w2 obtain p3 where p3: "p2 = p3 @ [E_WroteRequest tw]"
    using last_of_order by blast
  from p1 p2 p3 show ?thesis by simp
qed

lemma WroteRequest_anchor:
  assumes "tcpStart r \<noteq> 0 \<longrightarrow> dnsStart r \<noteq> 0"
  shows "serverStart (WroteRequest tw r) = tw \<and>
         (dnsStart (WroteRequest tw r) = tw \<or>
          dnsStart r \<noteq> 0 \<and> dnsStart (WroteRequest tw r) = dnsStart r)"
  using assms by (auto simp: WroteRequest_def Let_def IsZero_def)

lemma tail_total:
  assumes "0 < dnsStart r" and "dnsStart r \<le> serverStart r" and "serverStart r \<le> tf"
    and "tf \<le> te" and "te - dnsStart r \<le> maxDuration"
  shows "total (End te (GotFirstResponseByte tf r)) =
           Sub (serverStart (End te (GotFirstResponseByte tf r)))
               (dnsStart (End te (GotFirstResponseByte tf r)))
           + ServerProcessing (End te (GotFirstResponseByte tf r))
           + contentTransfer (End te (GotFirstResponseByte tf r))"
  using assms by (simp add: End_def GotFirstResponseByte_def Let_def IsZero_def Sub_exact)

lemma complete_total:
  assumes ord: "lifecycle_order es" and mono: "monotone_clock es"
    and w: "E_WroteRequest tw \<in> set es"
    and f: "E_GotFirstResponseByte tf \<in> set es"
    and e: "E_End te \<in> set es"
    and span: "\<forall>t\<in>set (stamps es). te - t \<le> maxDuration"
  shows "total (run es zero_Result) =
           Sub (serverStart (run es zero_Result)) (dnsStart (run es zero_Result))
           + ServerProcessing (run es zero_Result) + contentTransfer (run es zero_Result)"
proof -
  from complete_shape [OF ord w f e] obtain pre
    where es: "es = pre @ [E_WroteRequest tw, E_GotFirstResponseByte tf, E_End te]" ..
  define r0 where "r0 = run pre zero_Result"
  define r1 where "r1 = WroteRequest tw r0"
  have st: "stamps es = stamps pre @ [tw, tf, te]"
    by (simp add: es stamps_append)
  from mono st have sorted: "\<forall>x\<in>set (stamps pre). x \<le> tw" "tw \<le> tf" "tf \<le> te"
    and pos: "\<forall>x\<in>set (stamps pre). 0 < x" "0 < tw"
    by (auto simp: monotone_clock_def sorted_append list_all_iff)
  from span st have near: "\<forall>x\<in>set (stamps pre). te - x \<le> maxDuration" "te - tw \<le> maxDuration"
    by auto
  have "tcpStart zero_Result \<noteq> 0 \<longrightarrow> dnsStart zero_Result \<noteq> 0"
    by (simp add: zero_Result_def)
  then have anch: "tcpStart r0 \<noteq> 0 \<longrightarrow> dnsStart r0 \<noteq> 0"
    using run_keeps [where P = "\<lambda>r. tcpStart r \<noteq> 0 \<longrightarrow> dnsStart r \<noteq> 0"
        and es = pre and r = zero_Result, OF fire_anchored pos(1)]
    by (simp add: r0_def)
  have "set (timestamps r0) \<subseteq> insert 0 (set (stamps pre))"
    unfolding r0_def by (rule run_timestamps [OF timestamps_zero_Result subset_refl])
  then have d0: "dnsStart r0 = 0 \<or> dnsStart r0 \<in> set (stamps pre)"
    by (auto simp: timestamps_def)
  have srv: "serverStart r1 = tw"
    and dns: "dnsStart r1 = tw \<or> dnsStart r0 \<noteq> 0 \<and> dnsStart r1 = dnsStart r0"
    using WroteRequest_anchor [OF anch, of tw] by (simp_all add: r1_def)
  from dns d0 sorted pos near
  have a: "0 < dnsStart r1" "dnsStart r1 \<le> serverStart r1" "te - dnsStart r1 \<le> maxDuration"
    unfolding srv by auto
  have "run es zero_Result = End te (GotFirstResponseByte tf r1)"
    by (simp add: es run_append r0_def r1_def)
  then show ?thesis
    using tail_total [OF a(1,2) _ sorted(3) a(3)] sorted(2) srv by simp
qed

lemma fresh_total:
  assumes mono: "monotone_clock es"
    and es: "es = [E_DNSStart t0, E_DNSDone t1, E_ConnectStart t2, E_ConnectDone t3,
                   E_TLSHandshakeStart t4, E_TLSHandshakeDone t5, E_GotConn False,
                   E_WroteRequest tw, E_GotFirstResponseByte tf, E_End te]"
    and span: "\<forall>t\<in>set (stamps es). te - t \<le> maxDuration"
  shows "Sub (serverStart (run es zero_Result)) (dnsStart (run es zero_Result)) =
           DNSLookup (run es zero_Result) + TCPConnection (run es zero_Result)
           + TLSHandshake (run es zero_Result)
           + Sub (tcpStart (run es zero_Result)) (dnsDone (run es zero_Result))
           + Sub (tlsStart (run es zero_Result)) (tcpDone (run es zero_Result))
           + Sub (serverStart (run es zero_Result)) (tlsDone (run es zero_Result))"
    and "0 \<le> Sub (tcpStart (run es zero_Result)) (dnsDone (run es zero_Result))"
    and "0 \<le> Sub (tlsStart (run es zero_Result)) (tcpDone (run es zero_Result))"
    and "0 \<le> Sub (serverStart (run es zero_Result)) (tlsDone (run es zero_Result))"
proof -
  from mono es have ord: "0 < t0" "t0 \<le> t1" "t1 \<le> t2" "t2 \<le> t3" "t3 \<le> t4" "t4 \<le> t5"
    "t5 \<le> tw" "tw \<le> tf" "tf \<le> te"
    by (auto simp: monotone_clock_def)
  from span es have near: "te - t0 \<le> maxDuration"
    by simp
  have fields: "dnsStart (run es zero_Result) = t0" "dnsDone (run es zero_Result) = t1"
    "tcpStart (run es zero_Result) = t2" "tcpDone (run es zero_Result) = t3"
    "tlsStart (run es zero_Result) = t4" "tlsDone (run es zero_Result) = t5"
    "serverStart (run es zero_Result) = tw"
    "DNSLookup (run es zero_Result) = Sub t1 t0"
    "TCPConnection (run es zero_Result) = Sub t3 t2"
    "TLSHandshake (run es zero_Result) = Sub t5 t4"
    using ord(1) by (simp_all add: es zero_Result_def hook_defs Let_def IsZero_def)
  have exact: "Sub tw t0 = tw - t0" "Sub t1 t0 = t1 - t0" "Sub t3 t2 = t3 - t2"
    "Sub t5 t4 = t5 - t4" "Sub t2 t1 = t2 - t1" "Sub t4 t3 = t4 - t3" "Sub tw t5 = tw - t5"
    using ord near by (simp_all add: Sub_exact)
  show "Sub (serverStart (run es zero_Result)) (dnsStart (run es zero_Result)) =
           DNSLookup (run es zero_Result) + TCPConnection (run es zero_Result)
           + TLSHandshake (run es zero_Result)
           + Sub (tcpStart (run es zero_Result)) (dnsDone (run es zero_Result))
           + Sub (tlsStart (run es zero_Result)) (tcpDone (run es zero_Result))
           + Sub (serverStart (run es zero_Result)) (tlsDone (run es zero_Result))"
    unfolding fields exact by simp
  show "0 \<le> Sub (tcpStart (run es zero_Result)) (dnsDone (run es zero_Result))"
    "0 \<le> Sub (tlsStart (run es zero_Result)) (tcpDone (run es zero_Result))"
    "0 \<le> Sub (serverStart (run es zero_Result)) (tlsDone (run es zero_Result))"
    unfolding fields using ord by (simp_all add: Sub_nonneg)
qed

text \<open>
  Claim C2. The claim reads: for every complete exchange, the total in \<open>durations\<close>
  equals DNSLookup + TCPConnection + TLSHandshake + ServerProcessing + ContentTransfer, up
  to the zero-collapse rules. As amended: for every complete exchange (events at most once
  in lifecycle order, a monotone clock, request-written and first-response-byte fired,
  \<open>End\<close> last, the whole lasting no longer than the largest duration) the total is
  \<open>(serverStart - dnsStart) + ServerProcessing + ContentTransfer\<close>, with \<open>dnsStart\<close>
  the anchor the hooks have left. The first term is the whole time from the anchor to the
  written request; when all nine events fire on a fresh connection it is
  DNSLookup + TCPConnection + TLSHandshake plus the non-negative times between the phases
  (\<open>tcpStart - dnsDone\<close>, \<open>tlsStart - tcpDone\<close>, \<open>serverStart - tlsDone\<close>).
\<close>

theorem total_is_anchor_to_end:
  assumes "lifecycle_order es" and "monotone_clock es"
    and "E_WroteRequest tw \<in> set es"
    and "E_GotFirstResponseByte tf \<in> set es"
    and "E_End te \<in> set es"
    and "\<forall>t\<in>set (stamps es). te - t \<le> maxDuration"
  shows
    "durations (run es zero_Result) ''Total'' =
       Some (Sub (serverStart (run es zero_Result)) (dnsStart (run es zero_Result))
             + ServerProcessing (run es zero_Result) + contentTransfer (run es zero_Result)) \<and>
     (es = [E_DNSStart t0, E_DNSDone t1, E_ConnectStart t2, E_ConnectDone t3,
            E_TLSHandshakeStart t4, E_TLSHandshakeDone t5, E_GotConn False,
            E_WroteRequest tw, E_GotFirstResponseByte tf, E_End te] \<longrightarrow>
        Sub (serverStart (run es zero_Result)) (dnsStart (run es zero_Result)) =
          DNSLookup (run es zero_Result) + TCPConnection (run es zero_Result)
          + TLSHandshake (run es zero_Result)
          + Sub (tcpStart (run es zero_Result)) (dnsDone (run es zero_Result))
          + Sub (tlsStart (run es zero_Result)) (tcpDone (run es zero_Result))
          + Sub (serverStart (run es zero_Result)) (tlsDone (run es zero_Result)) \<and>
        0 \<le> Sub (tcpStart (run es zero_Result)) (dnsDone (run es zero_Result)) \<and>
        0 \<le> Sub (tlsStart (run es zero_Result)) (tcpDone (run es zero_Result)) \<and>
        0 \<le> Sub (serverStart (run es zero_Result)) (tlsDone (run es zero_Result)))"
proof (intro conjI impI)
  show "durations (run es zero_Result) ''Total'' =
       Some (Sub (serverStart (run es zero_Result)) (dnsStart (run es zero_Result))
             + ServerProcessing (run es zero_Result) + contentTransfer (run es zero_Result))"
    using complete_total [OF assms] by (simp add: durations_def)
next
  assume es: "es = [E_DNSStart t0, E_DNSDone t1, E_ConnectStart t2, E_ConnectDone t3,
            E_TLSHandshakeStart t4, E_TLSHandshakeDone t5, E_GotConn False,
            E_WroteRequest tw, E_GotFirstResponseByte tf, E_End te]"
  note fresh = fresh_total [OF assms(2) es assms(6)]
  show "Sub (serverStart (run es zero_Result)) (dnsStart (run es zero_Result)) =
          DNSLookup (run es zero_Result) + TCPConnection (run es zero_Result)
          + TLSHandshake (run es zero_Result)
          + Sub (tcpStart (run es zero_Result)) (dnsDone (run es zero_Result))
          + Sub (tlsStart (run es zero_Result)) (tcpDone (run es zero_Result))
          + Sub (serverStart (run es zero_Result)) (tlsDone (run es zero_Result))"
    by (rule fresh(1))
  show "0 \<le> Sub (tcpStart (run es zero_Result)) (dnsDone (run es zero_Result))"
    by (rule fresh(2))
  show "0 \<le> Sub (tlsStart (run es zero_Result)) (tcpDone (run es zero_Result))"
    by (rule fresh(3))
  show "0 \<le> Sub (serverStart (run es zero_Result)) (tlsDone (run es zero_Result))"
    by (rule fresh(4))
qed

theorem total_is_anchor_to_end_witness:
  "lifecycle_order fresh_tls_exchange \<and> monotone_clock fresh_tls_exchange \<and>
   E_WroteRequest (clock0 + 7) \<in> set fresh_tls_exchange \<and>
   E_GotFirstResponseByte (clock0 + 8) \<in> set fresh_tls_exchange \<and>
   E_End (clock0 + 9) \<in> set fresh_tls_exchange \<and>
   list_all (\<lambda>t. clock0 + 9 - t \<le> maxDuration) (stamps fresh_tls_exchange) \<and>
   durations (run fresh_tls_exchange zero_Result) ''Total'' = Some 8 \<and>
   Sub (serverStart (run fresh_tls_exchange zero_Result))
       (dnsStart (run fresh_tls_exchange zero_Result)) = 6 \<and>
   ServerProcessing (run fresh_tls_exchange zero_Result) = 1 \<and>
   contentTransfer (run fresh_tls_exchange zero_Result) = 1 \<and>
   DNSLookup (run fresh_tls_exchange zero_Result)
   + TCPConnection (run fresh_tls_exchange zero_Result)
   + TLSHandshake (run fresh_tls_exchange zero_Result) = 3 \<and>
   Sub (tcpStart (run fresh_tls_exchange zero_Result))
       (dnsDone (run fresh_tls_exchange zero_Result))
   + Sub (tlsStart (run fresh_tls_exchange zero_Result))
         (tcpDone (run fresh_tls_exchange zero_Result))
   + Sub (serverStart (run fresh_tls_exchange zero_Result))
         (tlsDone (run fresh_tls_exchange zero_Result)) = 3"
proof -
  have ord: "lifecycle_order fresh_tls_exchange"
    by (simp add: fresh_tls_exchange_def lifecycle_order_def)
  have mono: "monotone_clock fresh_tls_exchange"
    by (simp add: fresh_tls_exchange_def monotone_clock_def clock0_def)
  have mem: "E_WroteRequest (clock0 + 7) \<in> set fresh_tls_exchange"
    "E_GotFirstResponseByte (clock0 + 8) \<in> set fresh_tls_exchange"
    "E_End (clock0 + 9) \<in> set fresh_tls_exchange"
    by (simp_all add: fresh_tls_exchange_def)
  have span: "\<forall>t\<in>set (stamps fresh_tls_exchange). clock0 + 9 - t \<le> maxDuration"
    by (simp add: fresh_tls_exchange_def maxDuration_def)
  have shape: "fresh_tls_exchange =
      [E_DNSStart (clock0 + 1), E_DNSDone (clock0 + 2), E_ConnectStart (clock0 + 3),
       E_ConnectDone (clock0 + 4), E_TLSHandshakeStart (clock0 + 5),
       E_TLSHandshakeDone (clock0 + 6), E_GotConn False, E_WroteRequest (clock0 + 7),
       E_GotFirstResponseByte (clock0 + 8), E_End (clock0 + 9)]"
    by (simp add: fresh_tls_exchange_def)
  have parts: "ServerProcessing (run fresh_tls_exchange zero_Result) = 1"
    "contentTransfer (run fresh_tls_exchange zero_Result) = 1"
    "DNSLookup (run fresh_tls_exchange zero_Result)
     + TCPConnection (run fresh_tls_exchange zero_Result)
     + TLSHandshake (run fresh_tls_exchange zero_Result) = 3"
    "Sub (tcpStart (run fresh_tls_exchange zero_Result))
         (dnsDone (run fresh_tls_exchange zero_Result))
     + Sub (tlsStart (run fresh_tls_exchange zero_Result))
           (tcpDone (run fresh_tls_exchange zero_Result))
     + Sub (serverStart (run fresh_tls_exchange zero_Result))
           (tlsDone (run fresh_tls_exchange zero_Result)) = 3"
    by (simp_all add: fresh_tls_exchange_def zero_Result_def hook_defs time_defs)
  note inst = total_is_anchor_to_end [OF ord mono mem span,
      where ?t0.0 = "clock0 + 1" and ?t1.0 = "clock0 + 2" and ?t2.0 = "clock0 + 3"
        and ?t3.0 = "clock0 + 4" and ?t4.0 = "clock0 + 5" and ?t5.0 = "clock0 + 6"]
  from inst shape parts
  have anchor: "Sub (serverStart (run fresh_tls_exchange zero_Result))
       (dnsStart (run fresh_tls_exchange zero_Result)) = 6"
    by linarith
  with inst parts
  have "durations (run fresh_tls_exchange zero_Result) ''Total'' = Some 8"
    by simp
  with ord mono mem span parts anchor show ?thesis
    by (simp add: list_all_iff)
qed

theorem total_differs_from_phase_sum:
  "lifecycle_order fresh_tls_exchange \<and> monotone_clock fresh_tls_exchange \<and>
   paired fresh_tls_exchange \<and>
   durations (run fresh_tls_exchange zero_Result) ''Total'' = Some 8 \<and>
   DNSLookup (run fresh_tls_exchange zero_Result)
   + TCPConnection (run fresh_tls_exchange zero_Result)
   + TLSHandshake (run fresh_tls_exchange zero_Result)
   + ServerProcessing (run fresh_tls_exchange zero_Result)
   + contentTransfer (run fresh_tls_exchange zero_Result) = 5 \<and>
   lifecycle_order legacy_dial_exchange \<and> monotone_clock legacy_dial_exchange \<and>
   paired legacy_dial_exchange \<and>
   durations (run legacy_dial_exchange zero_Result) ''Total'' = Some 2 \<and>
   DNSLookup (run legacy_dial_exchange zero_Result)
   + TCPConnection (run legacy_dial_exchange zero_Result)
   + TLSHandshake (run legacy_dial_exchange zero_Result)
   + ServerProcessing (run legacy_dial_exchange zero_Result)
   + contentTransfer (run legacy_dial_exchange zero_Result) = 3"
  by (simp add: fresh_tls_exchange_def legacy_dial_exchange_def lifecycle_order_def
      monotone_clock_def paired_def zero_Result_def hook_defs durations_def time_defs)

end
